theory Spec2Isabelle
  imports Complex_Main
begin

section \<open>Python values and exceptions\<close>

text \<open>
  The program (\<^verbatim>\<open>src/app.py\<close>) is dynamically typed and works on decoded JSON. A value is
  one of the objects the JSON decoder produces. \<open>PNone\<close> is Python's \<^verbatim>\<open>None\<close>, which is both
  a decoded JSON \<^verbatim>\<open>null\<close> and the value the code uses for "absent". A \<^verbatim>\<open>dict\<close> is an
  association list whose first binding of a key is the binding of the dict; its keys are
  strings, as those of a decoded JSON object are. Floats are only carried and compared,
  never computed with, so a float is the real number it denotes (NaN and the infinities
  are not modelled). A \<^verbatim>\<open>str\<close> is a list of characters.
\<close>

datatype pyval =
    PNone
  | PBool bool
  | PInt int
  | PFloat real
  | PStr string
  | PList "pyval list"
  | PDict "(string \<times> pyval) list"

text \<open>
  Exceptions are values. The first four are subclasses of \<^verbatim>\<open>requests.RequestException\<close>
  (\<^verbatim>\<open>JSONDecodeError\<close> is the one \<^verbatim>\<open>Response.json()\<close> raises, a \<^verbatim>\<open>RequestException\<close> since
  requests 2.27); the others are built-in exceptions.
\<close>

datatype py_error =
    ConnectionError
  | Timeout
  | HTTPError
  | JSONDecodeError
  | AttributeError
  | TypeError
  | ValueError
  | KeyError
  | IndexError
  | OverflowError

fun is_RequestException :: "py_error \<Rightarrow> bool" where
  "is_RequestException ConnectionError = True"
| "is_RequestException Timeout = True"
| "is_RequestException HTTPError = True"
| "is_RequestException JSONDecodeError = True"
| "is_RequestException _ = False"

text \<open>Sequencing of two computations that may raise: the first exception wins.\<close>

definition py_bind :: "py_error + 'a \<Rightarrow> ('a \<Rightarrow> py_error + 'b) \<Rightarrow> py_error + 'b" where
  "py_bind m f = (case m of Inl e \<Rightarrow> Inl e | Inr v \<Rightarrow> f v)"

text \<open>Truth value of an object, as \<^verbatim>\<open>not x\<close> and \<^verbatim>\<open>if x\<close> test it.\<close>

fun truthy :: "pyval \<Rightarrow> bool" where
  "truthy PNone = False"
| "truthy (PBool b) = b"
| "truthy (PInt n) = (n \<noteq> 0)"
| "truthy (PFloat r) = (r \<noteq> 0)"
| "truthy (PStr s) = (s \<noteq> [])"
| "truthy (PList xs) = (xs \<noteq> [])"
| "truthy (PDict kv) = (kv \<noteq> [])"

text \<open>\<^verbatim>\<open>x.get(k, d)\<close>: only a dict has the method.\<close>

definition dict_get :: "(string \<times> pyval) list \<Rightarrow> string \<Rightarrow> pyval \<Rightarrow> pyval" where
  "dict_get kv k d = (case map_of kv k of Some v \<Rightarrow> v | None \<Rightarrow> d)"

fun py_get :: "pyval \<Rightarrow> string \<Rightarrow> pyval \<Rightarrow> py_error + pyval" where
  "py_get (PDict kv) k d = Inr (dict_get kv k d)"
| "py_get _ k d = Inl AttributeError"

text \<open>The keys of a dict, each once.\<close>

definition dict_keys :: "(string \<times> pyval) list \<Rightarrow> string list" where
  "dict_keys kv = remdups (map fst kv)"

text \<open>
  Iteration (\<^verbatim>\<open>enumerate(x)\<close>, \<^verbatim>\<open>for ... in x\<close>): a list gives its elements, a str its
  characters, a dict its keys; anything else is not iterable.
\<close>

fun py_iter :: "pyval \<Rightarrow> py_error + pyval list" where
  "py_iter (PList xs) = Inr xs"
| "py_iter (PStr s) = Inr (map (\<lambda>c. PStr [c]) s)"
| "py_iter (PDict kv) = Inr (map PStr (dict_keys kv))"
| "py_iter _ = Inl TypeError"

text \<open>\<^verbatim>\<open>len(x)\<close>.\<close>

fun py_len :: "pyval \<Rightarrow> py_error + nat" where
  "py_len (PList xs) = Inr (length xs)"
| "py_len (PStr s) = Inr (length s)"
| "py_len (PDict kv) = Inr (length (dict_keys kv))"
| "py_len _ = Inl TypeError"

text \<open>
  \<^verbatim>\<open>x[i]\<close> for a non-negative int \<open>i\<close>. A dict decoded from JSON has no int key, so the
  subscript raises \<^verbatim>\<open>KeyError\<close> there.
\<close>

fun py_index :: "pyval \<Rightarrow> nat \<Rightarrow> py_error + pyval" where
  "py_index (PList xs) i = (if i < length xs then Inr (xs ! i) else Inl IndexError)"
| "py_index (PStr s) i = (if i < length s then Inr (PStr [s ! i]) else Inl IndexError)"
| "py_index (PDict kv) i = Inl KeyError"
| "py_index _ i = Inl TypeError"

section \<open>The weather code translator\<close>

text \<open>The table of \<^verbatim>\<open>weathercode_to_text\<close> (lines 67 to 89).\<close>

definition mapping :: "(int \<times> string) list" where
  "mapping =
    [(0, ''Clear sky''),
     (1, ''Mainly clear''),
     (2, ''Partly cloudy''),
     (3, ''Overcast''),
     (45, ''Fog''),
     (48, ''Depositing rime fog''),
     (51, ''Drizzle: Light''),
     (53, ''Drizzle: Moderate''),
     (55, ''Drizzle: Dense''),
     (61, ''Rain: Slight''),
     (63, ''Rain: Moderate''),
     (65, ''Rain: Heavy''),
     (71, ''Snow fall: Slight''),
     (73, ''Snow fall: Moderate''),
     (75, ''Snow fall: Heavy''),
     (80, ''Rain showers: Slight''),
     (81, ''Rain showers: Moderate''),
     (82, ''Rain showers: Violent''),
     (95, ''Thunderstorm: Moderate''),
     (96, ''Thunderstorm with slight hail''),
     (99, ''Thunderstorm with heavy hail'')]"

text \<open>
  A dict lookup hashes its key. A list or a dict is unhashable (\<^verbatim>\<open>TypeError\<close>). Among the
  hashable values, the ones equal to an int key are that int, a bool (\<^verbatim>\<open>True == 1\<close>,
  \<^verbatim>\<open>False == 0\<close>) and a float with an integral value; \<^verbatim>\<open>None\<close> and a str equal no int.
\<close>

fun int_key :: "pyval \<Rightarrow> py_error + int option" where
  "int_key (PInt n) = Inr (Some n)"
| "int_key (PBool b) = Inr (Some (if b then 1 else 0))"
| "int_key (PFloat r) = Inr (if of_int \<lfloor>r\<rfloor> = r then Some \<lfloor>r\<rfloor> else None)"
| "int_key PNone = Inr None"
| "int_key (PStr s) = Inr None"
| "int_key (PList xs) = Inl TypeError"
| "int_key (PDict kv) = Inl TypeError"

text \<open>\<^verbatim>\<open>mapping.get(code, "Unknown")\<close> (line 90).\<close>

definition weathercode_to_text :: "pyval \<Rightarrow> py_error + pyval" where
  "weathercode_to_text code =
     py_bind (int_key code) (\<lambda>k.
       Inr (PStr (case k of
                    None \<Rightarrow> ''Unknown''
                  | Some n \<Rightarrow> (case map_of mapping n of Some s \<Rightarrow> s | None \<Rightarrow> ''Unknown''))))"

section \<open>The forecast normalizer\<close>

text \<open>
  One element of \<^verbatim>\<open>rows\<close> (lines 102 to 108): a dict with the five keys below. The type of
  the \<open>date\<close> entry is a parameter, since line 110 replaces the column of raw dates by
  the column of converted ones.
\<close>

record 'd row =
  date :: 'd
  tmax :: pyval
  tmin :: pyval
  precip_mm :: pyval
  weather_text :: pyval

text \<open>\<^verbatim>\<open>xs[i] if i < len(xs) else None\<close> (lines 104 to 106).\<close>

definition item_or_none :: "pyval \<Rightarrow> nat \<Rightarrow> py_error + pyval" where
  "item_or_none xs i =
     py_bind (py_len xs) (\<lambda>n. if i < n then py_index xs i else Inr PNone)"

text \<open>\<^verbatim>\<open>weathercode_to_text(wcode[i]) if i < len(wcode) else None\<close> (line 107).\<close>

definition text_or_none :: "pyval \<Rightarrow> nat \<Rightarrow> py_error + pyval" where
  "text_or_none wcodes i =
     py_bind (py_len wcodes) (\<lambda>n.
       if i < n then py_bind (py_index wcodes i) weathercode_to_text else Inr PNone)"

text \<open>The dict display of lines 102 to 108; its entries are evaluated in order.\<close>

definition make_row ::
  "pyval \<Rightarrow> pyval \<Rightarrow> pyval \<Rightarrow> pyval \<Rightarrow> nat \<Rightarrow> pyval \<Rightarrow> py_error + pyval row" where
  "make_row tmaxs tmins precips wcodes i d =
     py_bind (item_or_none tmaxs i) (\<lambda>a.
     py_bind (item_or_none tmins i) (\<lambda>b.
     py_bind (item_or_none precips i) (\<lambda>c.
     py_bind (text_or_none wcodes i) (\<lambda>t.
       Inr \<lparr>date = d, tmax = a, tmin = b, precip_mm = c, weather_text = t\<rparr>))))"

text \<open>
  The loop of lines 101 to 108 over \<^verbatim>\<open>enumerate(dates)\<close>: \<open>i\<close> is the index of the next
  date, \<open>rows\<close> the list built so far.
\<close>

fun rows_loop ::
  "pyval \<Rightarrow> pyval \<Rightarrow> pyval \<Rightarrow> pyval \<Rightarrow> nat \<Rightarrow> pyval list \<Rightarrow> pyval row list
     \<Rightarrow> py_error + pyval row list" where
  "rows_loop tmaxs tmins precips wcodes i [] rows = Inr rows"
| "rows_loop tmaxs tmins precips wcodes i (d # ds) rows =
     py_bind (make_row tmaxs tmins precips wcodes i d) (\<lambda>r.
       rows_loop tmaxs tmins precips wcodes (Suc i) ds (rows @ [r]))"

text \<open>
  The table. \<^verbatim>\<open>pandas.DataFrame(rows)\<close> on a list of dicts takes its columns from the keys
  of the dicts, so the frame of an empty list has no column at all. Every dict of
  \<^verbatim>\<open>rows\<close> has the same five keys.
\<close>

record 'd dataframe =
  columns :: "string list"
  records :: "'d row list"

text \<open>
  The frame does not keep the objects of the dicts: it infers one dtype per column and
  stores each entry in it. A missing entry stays missing (\<^verbatim>\<open>None\<close> or NaN, both \<open>PNone\<close>
  here), and a float, a str, a bool, a list and a dict read back as the value that was
  put in. An int reads back as what the dtype of its column makes of it: the int itself
  in a column of ints, the nearest float in a column that also holds a float or a missing
  entry. What an int becomes belongs to the library and is the parameter \<open>int_cell\<close>,
  given the entries of the column and the int.
\<close>

definition store_cell :: "(pyval list \<Rightarrow> int \<Rightarrow> pyval) \<Rightarrow> pyval list \<Rightarrow> pyval \<Rightarrow> pyval" where
  "store_cell int_cell col v = (case v of PInt n \<Rightarrow> int_cell col n | _ \<Rightarrow> v)"

text \<open>
  A row as the frame stores it. The \<open>date\<close> column is left as it is: line 110 hands it to
  \<^verbatim>\<open>pandas.to_datetime\<close> at once, and that parameter stands for what the library makes of
  the raw date entries, their storage included.
\<close>

definition store_row ::
  "(pyval list \<Rightarrow> int \<Rightarrow> pyval) \<Rightarrow> pyval row list \<Rightarrow> pyval row \<Rightarrow> pyval row" where
  "store_row int_cell rows r =
     \<lparr>date = date r,
      tmax = store_cell int_cell (map tmax rows) (tmax r),
      tmin = store_cell int_cell (map tmin rows) (tmin r),
      precip_mm = store_cell int_cell (map precip_mm rows) (precip_mm r),
      weather_text = store_cell int_cell (map weather_text rows) (weather_text r)\<rparr>"

definition DataFrame :: "(pyval list \<Rightarrow> int \<Rightarrow> pyval) \<Rightarrow> pyval row list \<Rightarrow> pyval dataframe" where
  "DataFrame int_cell rows =
     \<lparr>columns = (if rows = [] then []
                 else [''date'', ''tmax'', ''tmin'', ''precip_mm'', ''weather_text'']),
      records = map (store_row int_cell rows) rows\<rparr>"

text \<open>\<^verbatim>\<open>df["date"]\<close> as an expression: a frame without that column raises \<^verbatim>\<open>KeyError\<close>.\<close>

definition getitem_date :: "'d dataframe \<Rightarrow> py_error + 'd list" where
  "getitem_date df =
     (if ''date'' \<in> set (columns df) then Inr (map date (records df)) else Inl KeyError)"

text \<open>
  \<^verbatim>\<open>df["date"] = values\<close>: the column is replaced (or added, when the frame has none of
  that name); values of another length than the frame raise \<^verbatim>\<open>ValueError\<close>.
\<close>

definition setitem_date :: "'a dataframe \<Rightarrow> 'd list \<Rightarrow> py_error + 'd dataframe" where
  "setitem_date df vs =
     (if length vs \<noteq> length (records df) then Inl ValueError
      else Inr \<lparr>columns = (if ''date'' \<in> set (columns df) then columns df
                            else columns df @ [''date'']),
                records = map2 (\<lambda>r v. \<lparr>date = v, tmax = tmax r, tmin = tmin r,
                                         precip_mm = precip_mm r,
                                         weather_text = weather_text r\<rparr>)
                            (records df) vs\<rparr>)"

text \<open>
  \<^verbatim>\<open>make_daily_dataframe\<close> (lines 92 to 111). The conversion of the date column,
  \<^verbatim>\<open>pandas.to_datetime\<close>, belongs to the library and is a parameter: it either raises or
  gives the column of converted dates. The result is \<open>None\<close> for Python's \<^verbatim>\<open>None\<close>.
\<close>

definition make_daily_dataframe ::
  "(pyval list \<Rightarrow> int \<Rightarrow> pyval) \<Rightarrow> (pyval list \<Rightarrow> py_error + 'd list) \<Rightarrow> pyval
     \<Rightarrow> py_error + 'd dataframe option" where
  "make_daily_dataframe int_cell to_datetime daily_json =
     (if \<not> truthy daily_json then Inr None
      else
        py_bind (py_get daily_json ''time'' (PList [])) (\<lambda>dates.
        py_bind (py_get daily_json ''temperature_2m_max'' (PList [])) (\<lambda>tmaxs.
        py_bind (py_get daily_json ''temperature_2m_min'' (PList [])) (\<lambda>tmins.
        py_bind (py_get daily_json ''precipitation_sum'' (PList [])) (\<lambda>precips.
        py_bind (py_get daily_json ''weathercode'' (PList [])) (\<lambda>wcodes.
        py_bind (py_iter dates) (\<lambda>ds.
        py_bind (rows_loop tmaxs tmins precips wcodes 0 ds []) (\<lambda>rows.
        py_bind (getitem_date (DataFrame int_cell rows)) (\<lambda>col.
        py_bind (to_datetime col) (\<lambda>ts.
        py_bind (setitem_date (DataFrame int_cell rows) ts) (\<lambda>df.
          Inr (Some df))))))))))))"

section \<open>The network\<close>

text \<open>
  A call of \<^verbatim>\<open>requests.get\<close> either raises or returns a response. Of a response the program
  reads the status code and the decoded body; \<open>body\<close> is \<open>None\<close> when the body is not
  valid JSON. The collaborators are the \<open>reply\<close> of the world, which may depend on how
  many requests were sent before; \<open>sent\<close> is the log of the requests issued.
\<close>

record request =
  url :: string
  params :: "(string \<times> pyval) list"
  headers :: "(string \<times> string) list"
  timeout :: nat

record response =
  status_code :: int
  body :: "pyval option"

record world =
  reply :: "nat \<Rightarrow> request \<Rightarrow> py_error + response"
  sent :: "request list"

definition requests_get :: "request \<Rightarrow> world \<Rightarrow> (py_error + response) \<times> world" where
  "requests_get rq w = (reply w (length (sent w)) rq, w\<lparr>sent := sent w @ [rq]\<rparr>)"

text \<open>\<^verbatim>\<open>resp.raise_for_status()\<close> raises \<^verbatim>\<open>HTTPError\<close> for a 4xx or 5xx status, and only then.\<close>

definition raise_for_status :: "response \<Rightarrow> py_error + unit" where
  "raise_for_status resp =
     (if 400 \<le> status_code resp \<and> status_code resp < 600 then Inl HTTPError else Inr ())"

text \<open>\<^verbatim>\<open>resp.json()\<close>.\<close>

definition json :: "response \<Rightarrow> py_error + pyval" where
  "json resp = (case body resp of None \<Rightarrow> Inl JSONDecodeError | Some v \<Rightarrow> Inr v)"

text \<open>
  \<^verbatim>\<open>try: ... except requests.RequestException: return None\<close> (lines 41, 42 and 62, 63):
  any other exception leaves the function.
\<close>

definition except_RequestException :: "py_error + pyval \<Rightarrow> py_error + pyval" where
  "except_RequestException r =
     (case r of
        Inl e \<Rightarrow> (if is_RequestException e then Inr PNone else Inl e)
      | Inr v \<Rightarrow> Inr v)"

definition NOMINATIM_URL :: string where
  "NOMINATIM_URL = ''https://nominatim.openstreetmap.org/search''"

definition OPEN_METEO_URL :: string where
  "OPEN_METEO_URL = ''https://api.open-meteo.com/v1/forecast''"

section \<open>The location resolver\<close>

text \<open>
  \<^verbatim>\<open>float(x)\<close>: a float is itself, a bool is 0.0 or 1.0, and \<^verbatim>\<open>None\<close>, a list or a dict raise
  \<^verbatim>\<open>TypeError\<close>. What the interpreter does with a str (its syntax of numbers, \<^verbatim>\<open>ValueError\<close>)
  and with an int (rounding, \<^verbatim>\<open>OverflowError\<close>) is the parameter \<open>float_of\<close>.
\<close>

fun py_float :: "(pyval \<Rightarrow> py_error + real) \<Rightarrow> pyval \<Rightarrow> py_error + real" where
  "py_float float_of (PFloat r) = Inr r"
| "py_float float_of (PBool b) = Inr (if b then 1 else 0)"
| "py_float float_of (PInt n) = float_of (PInt n)"
| "py_float float_of (PStr s) = float_of (PStr s)"
| "py_float float_of PNone = Inl TypeError"
| "py_float float_of (PList xs) = Inl TypeError"
| "py_float float_of (PDict kv) = Inl TypeError"

text \<open>The request of lines 21 to 31.\<close>

definition geocode_request :: "string \<Rightarrow> request" where
  "geocode_request query =
     \<lparr>url = NOMINATIM_URL,
      params = [(''q'', PStr query), (''format'', PStr ''json''), (''limit'', PInt 1),
                (''addressdetails'', PInt 0)],
      headers = [(''User-Agent'', ''streamlit-weather-app/1.0 (+https://example.com)'')],
      timeout = 10\<rparr>"

text \<open>Lines 34 to 40: what the function makes of the decoded body.\<close>

definition first_candidate :: "(pyval \<Rightarrow> py_error + real) \<Rightarrow> string \<Rightarrow> pyval \<Rightarrow> py_error + pyval" where
  "first_candidate float_of query data =
     (case data of
        PList (item # rest) \<Rightarrow>
          py_bind (py_get item ''lat'' PNone) (\<lambda>lat_raw.
          py_bind (py_float float_of lat_raw) (\<lambda>lat.
          py_bind (py_get item ''lon'' PNone) (\<lambda>lon_raw.
          py_bind (py_float float_of lon_raw) (\<lambda>lon.
          py_bind (py_get item ''display_name'' (PStr query)) (\<lambda>display_name.
            Inr (PDict [(''lat'', PFloat lat), (''lon'', PFloat lon),
                        (''name'', display_name)]))))))
      | _ \<Rightarrow> Inr PNone)"

text \<open>
  \<^verbatim>\<open>geocode_location\<close> (lines 16 to 42), the body of the function: \<^verbatim>\<open>st.cache_data\<close> runs it
  when the query is not in its cache.
\<close>

definition geocode_location ::
  "(pyval \<Rightarrow> py_error + real) \<Rightarrow> string \<Rightarrow> world \<Rightarrow> (py_error + pyval) \<times> world" where
  "geocode_location float_of query w =
     (case requests_get (geocode_request query) w of
        (r, w') \<Rightarrow>
          (except_RequestException
             (py_bind r (\<lambda>resp.
              py_bind (raise_for_status resp) (\<lambda>u.
              py_bind (json resp) (first_candidate float_of query)))),
           w'))"

section \<open>The forecast fetcher\<close>

text \<open>The request of lines 50 to 59.\<close>

definition weather_request :: "real \<Rightarrow> real \<Rightarrow> int \<Rightarrow> request" where
  "weather_request lat lon days =
     \<lparr>url = OPEN_METEO_URL,
      params = [(''latitude'', PFloat lat), (''longitude'', PFloat lon),
                (''current_weather'', PStr ''true''),
                (''daily'',
                 PStr ''temperature_2m_max,temperature_2m_min,precipitation_sum,weathercode''),
                (''timezone'', PStr ''auto''),
                (''forecast_days'', PInt days)],
      headers = [],
      timeout = 10\<rparr>"

text \<open>\<^verbatim>\<open>fetch_weather\<close> (lines 45 to 63), the body of the function.\<close>

definition fetch_weather :: "real \<Rightarrow> real \<Rightarrow> int \<Rightarrow> world \<Rightarrow> (py_error + pyval) \<times> world" where
  "fetch_weather lat lon days w =
     (case requests_get (weather_request lat lon days) w of
        (r, w') \<Rightarrow>
          (except_RequestException
             (py_bind r (\<lambda>resp.
              py_bind (raise_for_status resp) (\<lambda>u. json resp))),
           w'))"

section \<open>The script: from the fetched payload to the table\<close>

text \<open>
  Lines 148 to 158 read the block of current conditions of the payload before the daily
  series is looked at; of these lines the model keeps what can raise, the method calls on
  the block. The calls that render (\<^verbatim>\<open>st.subheader\<close>, \<^verbatim>\<open>st.markdown\<close>, \<^verbatim>\<open>st.info\<close>) are
  left out.
\<close>

definition show_current :: "pyval \<Rightarrow> py_error + unit" where
  "show_current data =
     py_bind (py_get data ''current_weather'' (PDict [])) (\<lambda>current.
       if truthy current then
         py_bind (py_get current ''temperature'' PNone) (\<lambda>temp.
         py_bind (py_get current ''windspeed'' PNone) (\<lambda>wind.
         py_bind (py_get current ''winddirection'' PNone) (\<lambda>wind_dir.
         py_bind (py_get current ''time'' PNone) (\<lambda>time_iso. Inr ()))))
       else Inr ())"

text \<open>
  Lines 143 to 162: the payload is fetched for the chosen number of days; a falsy payload
  ends the run with a notice and no table; otherwise the daily block of the payload goes
  to the normalizer.
\<close>

definition forecast_table ::
  "(pyval list \<Rightarrow> int \<Rightarrow> pyval) \<Rightarrow> (pyval list \<Rightarrow> py_error + 'd list)
     \<Rightarrow> real \<Rightarrow> real \<Rightarrow> int \<Rightarrow> world \<Rightarrow> (py_error + 'd dataframe option) \<times> world" where
  "forecast_table int_cell to_datetime lat lon forecast_days w =
     (case fetch_weather lat lon forecast_days w of
        (r, w') \<Rightarrow>
          (py_bind r (\<lambda>data.
             if \<not> truthy data then Inr None
             else
               py_bind (show_current data) (\<lambda>u.
               py_bind (py_get data ''daily'' (PDict [])) (\<lambda>daily.
                 make_daily_dataframe int_cell to_datetime daily))),
           w'))"

section \<open>Notions used in the statements and proofs\<close>

text \<open>
  The values a dict lookup accepts as a key: everything the JSON decoder produces except
  a list and a dict.
\<close>

fun hashable :: "pyval \<Rightarrow> bool" where
  "hashable (PList xs) = False"
| "hashable (PDict kv) = False"
| "hashable _ = True"

text \<open>The text of a code the translator accepts.\<close>

definition text_of :: "pyval \<Rightarrow> pyval" where
  "text_of c = (case weathercode_to_text c of Inr t \<Rightarrow> t | Inl e \<Rightarrow> PNone)"

text \<open>
  The column a component gives over \<open>n\<close> dates, as the loop builds it: its entries, and
  \<open>None\<close> from its end on.
\<close>

definition padded :: "pyval list \<Rightarrow> nat \<Rightarrow> pyval list" where
  "padded xs n = map (\<lambda>j. if j < length xs then xs ! j else PNone) [0..<n]"

text \<open>The dict the loop appends for index \<open>i\<close> and date \<open>d\<close> over four component lists.\<close>

definition raw_row_at ::
  "pyval list \<Rightarrow> pyval list \<Rightarrow> pyval list \<Rightarrow> pyval list \<Rightarrow> nat \<Rightarrow> 'd \<Rightarrow> 'd row" where
  "raw_row_at tmaxs tmins precips wcodes i d =
     \<lparr>date = d,
      tmax = (if i < length tmaxs then tmaxs ! i else PNone),
      tmin = (if i < length tmins then tmins ! i else PNone),
      precip_mm = (if i < length precips then precips ! i else PNone),
      weather_text = (if i < length wcodes then text_of (wcodes ! i) else PNone)\<rparr>"

text \<open>The same row as a frame over \<open>n\<close> dates stores it.\<close>

definition row_at ::
  "(pyval list \<Rightarrow> int \<Rightarrow> pyval) \<Rightarrow> pyval list \<Rightarrow> pyval list \<Rightarrow> pyval list \<Rightarrow> pyval list
     \<Rightarrow> nat \<Rightarrow> nat \<Rightarrow> 'd \<Rightarrow> 'd row" where
  "row_at int_cell tmaxs tmins precips wcodes n i d =
     \<lparr>date = d,
      tmax = store_cell int_cell (padded tmaxs n) (if i < length tmaxs then tmaxs ! i else PNone),
      tmin = store_cell int_cell (padded tmins n) (if i < length tmins then tmins ! i else PNone),
      precip_mm =
        store_cell int_cell (padded precips n) (if i < length precips then precips ! i else PNone),
      weather_text = (if i < length wcodes then text_of (wcodes ! i) else PNone)\<rparr>"

text \<open>The columns of a frame built from at least one row.\<close>

definition row_columns :: "string list" where
  "row_columns = [''date'', ''tmax'', ''tmin'', ''precip_mm'', ''weather_text'']"

text \<open>
  Two fixed environments for concrete runs: a world that has sent nothing and whose
  collaborator always answers \<open>r\<close>, and an interpreter whose \<^verbatim>\<open>float\<close> accepts no str and
  no int (the runs below convert floats only).
\<close>

definition replying :: "py_error + response \<Rightarrow> world" where
  "replying r = \<lparr>reply = (\<lambda>n rq. r), sent = []\<rparr>"

definition no_float :: "pyval \<Rightarrow> py_error + real" where
  "no_float v = Inl ValueError"

text \<open>
  For concrete runs, the dtype of a numeric column: a column that holds a float or a
  missing entry stores an int as the float of the same value (exact up to \<open>2 ^ 53\<close>), a
  column that holds neither keeps the int.
\<close>

fun float_or_missing :: "pyval \<Rightarrow> bool" where
  "float_or_missing (PFloat r) = True"
| "float_or_missing PNone = True"
| "float_or_missing _ = False"

definition numeric_column :: "pyval list \<Rightarrow> int \<Rightarrow> pyval" where
  "numeric_column col n = (if list_ex float_or_missing col then PFloat (of_int n) else PInt n)"

section \<open>Timestamps\<close>

text \<open>
  What \<^verbatim>\<open>pandas.to_datetime\<close> gives for one entry is a timestamp: a calendar date, a time
  of day (here in minutes after midnight) and, when the entry names one, an offset from
  UTC in minutes.
\<close>

record timestamp =
  year :: nat
  month :: nat
  day :: nat
  time_of_day :: nat
  utc_offset :: "int option"

text \<open>
  For concrete runs, the conversion of a column of ISO 8601 strings of one of the shapes
  \<^verbatim>\<open>YYYY-MM-DD\<close>, \<^verbatim>\<open>YYYY-MM-DDTHH:MM\<close> and \<^verbatim>\<open>YYYY-MM-DDTHH:MM+HH:MM\<close> (or \<^verbatim>\<open>-HH:MM\<close>): the
  library keeps the date, the wall-clock time and the offset it reads, and a date alone
  is midnight without offset. Any other entry, and a column that mixes the shapes, is
  refused here (the library accepts more).
\<close>

definition digit :: "char \<Rightarrow> nat option" where
  "digit c = (if c \<in> set ''0123456789'' then Some (of_char c - 48) else None)"

fun digits :: "nat \<Rightarrow> string \<Rightarrow> nat option" where
  "digits acc [] = Some acc"
| "digits acc (c # cs) = (case digit c of None \<Rightarrow> None | Some d \<Rightarrow> digits (10 * acc + d) cs)"

definition iso_date :: "string \<Rightarrow> (nat \<times> nat \<times> nat) option" where
  "iso_date s =
     (case (digits 0 (take 4 s), digits 0 (take 2 (drop 5 s)), digits 0 (take 2 (drop 8 s))) of
        (Some y, Some m, Some d) \<Rightarrow>
          (if length s = 10 \<and> s ! 4 = CHR ''-'' \<and> s ! 7 = CHR ''-''
               \<and> 1 \<le> m \<and> m \<le> 12 \<and> 1 \<le> d \<and> d \<le> 31
           then Some (y, m, d) else None)
      | _ \<Rightarrow> None)"

definition iso_minutes :: "string \<Rightarrow> nat option" where
  "iso_minutes s =
     (case (digits 0 (take 2 s), digits 0 (take 2 (drop 3 s))) of
        (Some h, Some m) \<Rightarrow>
          (if length s = 5 \<and> s ! 2 = CHR '':'' \<and> h < 24 \<and> m < 60 then Some (60 * h + m)
           else None)
      | _ \<Rightarrow> None)"

definition iso_offset :: "string \<Rightarrow> int option" where
  "iso_offset s =
     (case iso_minutes (drop 1 s) of
        Some m \<Rightarrow>
          (if take 1 s = ''+'' then Some (int m)
           else if take 1 s = ''-'' then Some (- int m)
           else None)
      | None \<Rightarrow> None)"

definition iso_timestamp :: "string \<Rightarrow> timestamp option" where
  "iso_timestamp s =
     (case iso_date (take 10 s) of
        None \<Rightarrow> None
      | Some (y, m, d) \<Rightarrow>
          (if length s = 10 then
             Some \<lparr>year = y, month = m, day = d, time_of_day = 0, utc_offset = None\<rparr>
           else if take 1 (drop 10 s) = ''T'' then
             (case iso_minutes (take 5 (drop 11 s)) of
                None \<Rightarrow> None
              | Some t \<Rightarrow>
                  (if length s = 16 then
                     Some \<lparr>year = y, month = m, day = d, time_of_day = t, utc_offset = None\<rparr>
                   else
                     (case iso_offset (drop 16 s) of
                        None \<Rightarrow> None
                      | Some z \<Rightarrow>
                          Some \<lparr>year = y, month = m, day = d, time_of_day = t,
                                utc_offset = Some z\<rparr>)))
           else None))"

fun iso_entry :: "nat \<Rightarrow> pyval \<Rightarrow> timestamp option" where
  "iso_entry n (PStr s) = (if length s = n then iso_timestamp s else None)"
| "iso_entry n _ = None"

fun iso_column :: "nat \<Rightarrow> pyval list \<Rightarrow> py_error + timestamp list" where
  "iso_column n [] = Inr []"
| "iso_column n (v # vs) =
     (case iso_entry n v of
        None \<Rightarrow> Inl ValueError
      | Some t \<Rightarrow> py_bind (iso_column n vs) (\<lambda>ts. Inr (t # ts)))"

definition iso_to_datetime :: "pyval list \<Rightarrow> py_error + timestamp list" where
  "iso_to_datetime col =
     (case col of
        [] \<Rightarrow> Inr []
      | PStr s # vs \<Rightarrow> iso_column (length s) col
      | _ \<Rightarrow> Inl ValueError)"

section \<open>Properties of the weather code translator\<close>

lemma weathercode_to_text_int:
  "weathercode_to_text (PInt c) =
     Inr (PStr (case map_of mapping c of Some s \<Rightarrow> s | None \<Rightarrow> ''Unknown''))"
  by (simp add: weathercode_to_text_def py_bind_def)

text \<open>
  Claim C2. On every integer code the translator returns and does not raise: each of the
  21 codes of the table gives the string the table has for it (code 3 gives "Overcast"),
  and every other integer, negative, large or unassigned, gives "Unknown".
\<close>

theorem weathercode_to_text_total:
  "(weathercode_to_text (PInt 0) = Inr (PStr ''Clear sky'') \<and>
    weathercode_to_text (PInt 1) = Inr (PStr ''Mainly clear'') \<and>
    weathercode_to_text (PInt 2) = Inr (PStr ''Partly cloudy'') \<and>
    weathercode_to_text (PInt 3) = Inr (PStr ''Overcast'') \<and>
    weathercode_to_text (PInt 45) = Inr (PStr ''Fog'') \<and>
    weathercode_to_text (PInt 48) = Inr (PStr ''Depositing rime fog'') \<and>
    weathercode_to_text (PInt 51) = Inr (PStr ''Drizzle: Light'') \<and>
    weathercode_to_text (PInt 53) = Inr (PStr ''Drizzle: Moderate'') \<and>
    weathercode_to_text (PInt 55) = Inr (PStr ''Drizzle: Dense'') \<and>
    weathercode_to_text (PInt 61) = Inr (PStr ''Rain: Slight'') \<and>
    weathercode_to_text (PInt 63) = Inr (PStr ''Rain: Moderate'') \<and>
    weathercode_to_text (PInt 65) = Inr (PStr ''Rain: Heavy'') \<and>
    weathercode_to_text (PInt 71) = Inr (PStr ''Snow fall: Slight'') \<and>
    weathercode_to_text (PInt 73) = Inr (PStr ''Snow fall: Moderate'') \<and>
    weathercode_to_text (PInt 75) = Inr (PStr ''Snow fall: Heavy'') \<and>
    weathercode_to_text (PInt 80) = Inr (PStr ''Rain showers: Slight'') \<and>
    weathercode_to_text (PInt 81) = Inr (PStr ''Rain showers: Moderate'') \<and>
    weathercode_to_text (PInt 82) = Inr (PStr ''Rain showers: Violent'') \<and>
    weathercode_to_text (PInt 95) = Inr (PStr ''Thunderstorm: Moderate'') \<and>
    weathercode_to_text (PInt 96) = Inr (PStr ''Thunderstorm with slight hail'') \<and>
    weathercode_to_text (PInt 99) = Inr (PStr ''Thunderstorm with heavy hail'')) \<and>
   (c \<notin> {0, 1, 2, 3, 45, 48, 51, 53, 55, 61, 63, 65, 71, 73, 75, 80, 81, 82, 95, 96, 99}
      \<longrightarrow> weathercode_to_text (PInt c) = Inr (PStr ''Unknown'')) \<and>
   (\<exists>s. weathercode_to_text (PInt c) = Inr (PStr s))"
  by (simp add: weathercode_to_text_int mapping_def)

theorem weathercode_to_text_total_witness:
  "(1000::int) \<notin> {0, 1, 2, 3, 45, 48, 51, 53, 55, 61, 63, 65, 71, 73, 75, 80, 81, 82, 95, 96, 99}
   \<and> weathercode_to_text (PInt 1000) = Inr (PStr ''Unknown'')
   \<and> weathercode_to_text (PInt (- 1)) = Inr (PStr ''Unknown'')
   \<and> weathercode_to_text (PInt 56) = Inr (PStr ''Unknown'')
   \<and> weathercode_to_text (PInt 57) = Inr (PStr ''Unknown'')
   \<and> weathercode_to_text (PInt 66) = Inr (PStr ''Unknown'')
   \<and> weathercode_to_text (PInt 67) = Inr (PStr ''Unknown'')
   \<and> weathercode_to_text (PInt 77) = Inr (PStr ''Unknown'')
   \<and> weathercode_to_text (PInt 85) = Inr (PStr ''Unknown'')
   \<and> weathercode_to_text (PInt 86) = Inr (PStr ''Unknown'')"
  using weathercode_to_text_total [of 1000] weathercode_to_text_total [of "- 1"]
    weathercode_to_text_total [of 56] weathercode_to_text_total [of 57]
    weathercode_to_text_total [of 66] weathercode_to_text_total [of 67]
    weathercode_to_text_total [of 77] weathercode_to_text_total [of 85]
    weathercode_to_text_total [of 86]
  by simp

section \<open>Properties of the forecast normalizer\<close>

lemma weathercode_to_text_hashable:
  "hashable c \<Longrightarrow> weathercode_to_text c = Inr (text_of c)"
  by (cases c) (simp_all add: weathercode_to_text_def py_bind_def text_of_def)

lemma item_or_none_list:
  "item_or_none (PList xs) i = Inr (if i < length xs then xs ! i else PNone)"
  by (simp add: item_or_none_def py_bind_def)

lemma text_or_none_list:
  "(i < length cs \<Longrightarrow> hashable (cs ! i)) \<Longrightarrow>
   text_or_none (PList cs) i = Inr (if i < length cs then text_of (cs ! i) else PNone)"
  by (simp add: text_or_none_def py_bind_def weathercode_to_text_hashable)

lemma make_row_lists:
  "(i < length ws \<Longrightarrow> hashable (ws ! i)) \<Longrightarrow>
   make_row (PList as) (PList bs) (PList cs) (PList ws) i d = Inr (raw_row_at as bs cs ws i d)"
  by (simp add: make_row_def py_bind_def item_or_none_list text_or_none_list raw_row_at_def)

lemma rows_loop_lists:
  "(\<And>j. i \<le> j \<Longrightarrow> j < i + length ds \<Longrightarrow> j < length ws \<Longrightarrow> hashable (ws ! j)) \<Longrightarrow>
   rows_loop (PList as) (PList bs) (PList cs) (PList ws) i ds rows =
     Inr (rows @ map (\<lambda>(j, d). raw_row_at as bs cs ws j d) (List.enumerate i ds))"
proof (induction ds arbitrary: i rows)
  case Nil
  then show ?case by simp
next
  case (Cons d ds)
  have "make_row (PList as) (PList bs) (PList cs) (PList ws) i d
          = Inr (raw_row_at as bs cs ws i d)"
    by (rule make_row_lists) (simp add: Cons.prems)
  moreover have "rows_loop (PList as) (PList bs) (PList cs) (PList ws) (Suc i) ds
                   (rows @ [raw_row_at as bs cs ws i d])
     = Inr ((rows @ [raw_row_at as bs cs ws i d])
            @ map (\<lambda>(j, d). raw_row_at as bs cs ws j d) (List.enumerate (Suc i) ds))"
    by (rule Cons.IH) (simp add: Cons.prems)
  ultimately show ?case by (simp add: py_bind_def)
qed

lemma hashable_take_nth:
  "list_all hashable (take n ws) \<Longrightarrow> j < n \<Longrightarrow> j < length ws \<Longrightarrow> hashable (ws ! j)"
  by (metis length_take list_all_length min_less_iff_conj nth_take)

lemma map_date_raw_rows:
  "map date (map (\<lambda>(j, d). raw_row_at as bs cs ws j d) (List.enumerate i ds)) = ds"
  by (induction ds arbitrary: i) (simp_all add: raw_row_at_def)

text \<open>The columns of the rows the loop builds are the padded components.\<close>

lemma raw_rows_nth:
  "i < length ds \<Longrightarrow>
   map (\<lambda>(j, d). raw_row_at as bs cs ws j d) (List.enumerate 0 ds) ! i
     = raw_row_at as bs cs ws i (ds ! i)"
  by (simp add: nth_enumerate_eq)

lemma raw_rows_columns:
  "map tmax (map (\<lambda>(j, d). raw_row_at as bs cs ws j d) (List.enumerate 0 ds))
     = padded as (length ds)"
  "map tmin (map (\<lambda>(j, d). raw_row_at as bs cs ws j d) (List.enumerate 0 ds))
     = padded bs (length ds)"
  "map precip_mm (map (\<lambda>(j, d). raw_row_at as bs cs ws j d) (List.enumerate 0 ds))
     = padded cs (length ds)"
  by (rule nth_equalityI; simp add: padded_def nth_enumerate_eq raw_row_at_def)+

lemma store_cell_text [simp]:
  "store_cell int_cell col (text_of c) = text_of c"
  by (cases "int_key c")
     (simp_all add: store_cell_def text_of_def weathercode_to_text_def py_bind_def)

lemma store_cell_simps [simp]:
  "store_cell int_cell col PNone = PNone"
  "store_cell int_cell col (PFloat r) = PFloat r"
  "store_cell int_cell col (PStr s) = PStr s"
  "store_cell int_cell col (PInt n) = int_cell col n"
  by (simp_all add: store_cell_def)

lemma store_raw_row:
  assumes "rows = map (\<lambda>(j, d). raw_row_at as bs cs ws j d) (List.enumerate 0 ds)"
  shows "store_row int_cell rows (raw_row_at as bs cs ws i d)
           = row_at int_cell as bs cs ws (length ds) i d"
  unfolding store_row_def assms raw_rows_columns
  by (simp add: raw_row_at_def row_at_def)

lemma stored_rows:
  assumes "rows = map (\<lambda>(j, d). raw_row_at as bs cs ws j d) (List.enumerate 0 ds)"
  shows "map (store_row int_cell rows) rows
           = map (\<lambda>(j, d). row_at int_cell as bs cs ws (length ds) j d) (List.enumerate 0 ds)"
proof -
  have "map (store_row int_cell rows) rows
          = map (\<lambda>(j, d). store_row int_cell rows (raw_row_at as bs cs ws j d))
              (List.enumerate 0 ds)"
    by (subst (2) assms) (simp add: case_prod_unfold comp_def)
  then show ?thesis
    by (simp add: store_raw_row [OF assms])
qed

lemma map_date_rows:
  "map date (map (\<lambda>(j, d). row_at int_cell as bs cs ws n j d) (List.enumerate i ds)) = ds"
  by (induction ds arbitrary: i) (simp_all add: row_at_def)

lemma redate_rows:
  "length ts = length ds \<Longrightarrow>
   map2 (\<lambda>r v. \<lparr>date = v, tmax = tmax r, tmin = tmin r, precip_mm = precip_mm r,
                weather_text = weather_text r\<rparr>)
        (map (\<lambda>(j, d). row_at int_cell as bs cs ws n j d) (List.enumerate i ds)) ts
   = map (\<lambda>(j, t). row_at int_cell as bs cs ws n j t) (List.enumerate i ts)"
proof (induction ds arbitrary: i ts)
  case Nil
  then show ?case by simp
next
  case (Cons d ds)
  then obtain t ts' where ts: "ts = t # ts'" and len: "length ts' = length ds"
    by (cases ts) simp_all
  show ?case
    using Cons.IH [OF len, of "Suc i"] by (simp add: ts row_at_def)
qed

lemma make_daily_dataframe_conversion:
  assumes t: "truthy daily_json"
    and d: "py_get daily_json ''time'' (PList []) = Inr (PList ds)"
    and a: "py_get daily_json ''temperature_2m_max'' (PList []) = Inr (PList as)"
    and b: "py_get daily_json ''temperature_2m_min'' (PList []) = Inr (PList bs)"
    and c: "py_get daily_json ''precipitation_sum'' (PList []) = Inr (PList cs)"
    and w: "py_get daily_json ''weathercode'' (PList []) = Inr (PList ws)"
    and h: "list_all hashable (take (length ds) ws)"
    and ne: "ds \<noteq> []"
  shows "make_daily_dataframe int_cell to_datetime daily_json =
           py_bind (to_datetime ds) (\<lambda>ts.
             if length ts \<noteq> length ds then Inl ValueError
             else Inr (Some \<lparr>columns = row_columns,
                             records = map (\<lambda>(j, t). row_at int_cell as bs cs ws (length ds) j t)
                                         (List.enumerate 0 ts)\<rparr>))"
proof -
  define rows where "rows = map (\<lambda>(j, d). raw_row_at as bs cs ws j d) (List.enumerate 0 ds)"
  let ?stored = "map (\<lambda>(j, d). row_at int_cell as bs cs ws (length ds) j d) (List.enumerate 0 ds)"
  have loop: "rows_loop (PList as) (PList bs) (PList cs) (PList ws) 0 ds [] = Inr rows"
    using rows_loop_lists [of 0 ds ws as bs cs "[]"] hashable_take_nth [OF h]
    by (simp add: rows_def)
  have rows_ne: "rows \<noteq> []"
    using ne by (cases ds) (simp_all add: rows_def)
  have frame: "DataFrame int_cell rows = \<lparr>columns = row_columns, records = ?stored\<rparr>"
    using rows_ne by (simp add: DataFrame_def row_columns_def stored_rows [OF rows_def])
  have col: "getitem_date (DataFrame int_cell rows) = Inr ds"
    unfolding frame using map_date_rows [of int_cell as bs cs ws "length ds" 0 ds]
    by (simp add: getitem_date_def row_columns_def)
  have upd: "setitem_date (DataFrame int_cell rows) ts =
      (if length ts \<noteq> length ds then Inl ValueError
       else Inr \<lparr>columns = row_columns,
                 records = map (\<lambda>(j, t). row_at int_cell as bs cs ws (length ds) j t)
                             (List.enumerate 0 ts)\<rparr>)"
    for ts :: "'a list"
    unfolding frame using redate_rows [of ts ds int_cell as bs cs ws "length ds" 0]
    by (simp add: setitem_date_def row_columns_def)
  have "make_daily_dataframe int_cell to_datetime daily_json =
          py_bind (to_datetime ds) (\<lambda>ts.
            py_bind (setitem_date (DataFrame int_cell rows) ts) (\<lambda>df. Inr (Some df)))"
    unfolding make_daily_dataframe_def
    by (simp only: t d a b c w loop col py_bind_def py_iter.simps sum.case not_True_eq_False
          if_False)
  then show ?thesis
    by (simp add: upd py_bind_def split: sum.splits)
qed

lemma make_daily_dataframe_lists:
  assumes "truthy daily_json"
    and "py_get daily_json ''time'' (PList []) = Inr (PList ds)"
    and "py_get daily_json ''temperature_2m_max'' (PList []) = Inr (PList as)"
    and "py_get daily_json ''temperature_2m_min'' (PList []) = Inr (PList bs)"
    and "py_get daily_json ''precipitation_sum'' (PList []) = Inr (PList cs)"
    and "py_get daily_json ''weathercode'' (PList []) = Inr (PList ws)"
    and "list_all hashable (take (length ds) ws)"
    and "ds \<noteq> []"
    and "to_datetime ds = Inr ts"
    and "length ts = length ds"
  shows "make_daily_dataframe int_cell to_datetime daily_json =
           Inr (Some \<lparr>columns = row_columns,
                      records = map (\<lambda>(j, t). row_at int_cell as bs cs ws (length ds) j t)
                                  (List.enumerate 0 ts)\<rparr>)"
  unfolding make_daily_dataframe_conversion
    [where to_datetime = to_datetime and int_cell = int_cell, OF assms(1-8)]
  by (simp add: assms(9,10) py_bind_def)

text \<open>
  Claim C1. Let the daily block hold a date sequence of length \<open>n\<close> and component
  sequences of which at least one is shorter than \<open>n\<close>, the weather codes read being
  hashable. When the library converts the date column, the normalizer returns a table of
  exactly \<open>n\<close> records, and for each component of length \<open>m < n\<close> the records of index
  \<open>m\<close> to \<open>n - 1\<close>, the last \<open>n - m\<close>, hold \<open>None\<close> for it. Nothing is raised on the
  length mismatch: an exception that leaves the normalizer is the one the conversion of
  the dates raised (or its result has not the length of the column).
\<close>

theorem shorter_component_absent_tail:
  assumes "truthy daily_json"
    and "py_get daily_json ''time'' (PList []) = Inr (PList dates)"
    and "py_get daily_json ''temperature_2m_max'' (PList []) = Inr (PList tmaxs)"
    and "py_get daily_json ''temperature_2m_min'' (PList []) = Inr (PList tmins)"
    and "py_get daily_json ''precipitation_sum'' (PList []) = Inr (PList precips)"
    and "py_get daily_json ''weathercode'' (PList []) = Inr (PList wcodes)"
    and "list_all hashable (take (length dates) wcodes)"
    and "length tmaxs < length dates \<or> length tmins < length dates
           \<or> length precips < length dates \<or> length wcodes < length dates"
  shows "(to_datetime dates = Inr ts \<and> length ts = length dates \<longrightarrow>
           (\<exists>df. make_daily_dataframe int_cell to_datetime daily_json = Inr (Some df)
              \<and> length (records df) = length dates
              \<and> (\<forall>i. length tmaxs \<le> i \<and> i < length dates
                     \<longrightarrow> tmax (records df ! i) = PNone)
              \<and> (\<forall>i. length tmins \<le> i \<and> i < length dates
                     \<longrightarrow> tmin (records df ! i) = PNone)
              \<and> (\<forall>i. length precips \<le> i \<and> i < length dates
                     \<longrightarrow> precip_mm (records df ! i) = PNone)
              \<and> (\<forall>i. length wcodes \<le> i \<and> i < length dates
                     \<longrightarrow> weather_text (records df ! i) = PNone)))
       \<and> (make_daily_dataframe int_cell to_datetime daily_json = Inl e \<longrightarrow>
             to_datetime dates = Inl e
           \<or> (\<exists>ts'. to_datetime dates = Inr ts' \<and> length ts' \<noteq> length dates))"
proof -
  from assms(8) have ne: "dates \<noteq> []" by auto
  note res = make_daily_dataframe_conversion
    [where to_datetime = to_datetime and int_cell = int_cell, OF assms(1-7) ne]
  show ?thesis
    unfolding res
    by (auto simp: py_bind_def nth_enumerate_eq row_at_def split: sum.splits if_splits)
qed

theorem shorter_component_absent_tail_witness:
  "\<exists>df. make_daily_dataframe numeric_column Inr
          (PDict [(''time'', PList [PStr ''2024-01-01'', PStr ''2024-01-02'', PStr ''2024-01-03'']),
                  (''temperature_2m_max'', PList [PFloat 10]),
                  (''temperature_2m_min'', PList [PFloat 2, PFloat 3]),
                  (''weathercode'', PList [PInt 0, PInt 61])]) = Inr (Some df)
        \<and> length (records df) = 3
        \<and> tmax (records df ! 1) = PNone \<and> tmax (records df ! 2) = PNone
        \<and> tmin (records df ! 2) = PNone
        \<and> precip_mm (records df ! 0) = PNone \<and> precip_mm (records df ! 1) = PNone
        \<and> precip_mm (records df ! 2) = PNone
        \<and> weather_text (records df ! 2) = PNone"
proof -
  let ?dates = "[PStr ''2024-01-01'', PStr ''2024-01-02'', PStr ''2024-01-03'']"
  let ?daily = "PDict [(''time'', PList ?dates),
                  (''temperature_2m_max'', PList [PFloat 10]),
                  (''temperature_2m_min'', PList [PFloat 2, PFloat 3]),
                  (''weathercode'', PList [PInt 0, PInt 61])]"
  let ?P = "\<lambda>df. make_daily_dataframe numeric_column Inr ?daily = Inr (Some df)
      \<and> length (records df) = length ?dates
      \<and> (\<forall>i. length [PFloat 10] \<le> i \<and> i < length ?dates \<longrightarrow> tmax (records df ! i) = PNone)
      \<and> (\<forall>i. length [PFloat 2, PFloat 3] \<le> i \<and> i < length ?dates
             \<longrightarrow> tmin (records df ! i) = PNone)
      \<and> (\<forall>i. length ([] :: pyval list) \<le> i \<and> i < length ?dates
             \<longrightarrow> precip_mm (records df ! i) = PNone)
      \<and> (\<forall>i. length [PInt 0, PInt 61] \<le> i \<and> i < length ?dates
             \<longrightarrow> weather_text (records df ! i) = PNone)"
  have "\<exists>df. ?P df"
    by (rule mp [OF conjunct1 [OF shorter_component_absent_tail
          [where daily_json = ?daily and dates = ?dates and tmaxs = "[PFloat 10]"
             and tmins = "[PFloat 2, PFloat 3]" and precips = "[]"
             and wcodes = "[PInt 0, PInt 61]" and to_datetime = Inr and ts = ?dates
             and int_cell = numeric_column]]])
       (simp_all add: dict_get_def)
  then obtain df where df: "?P df" ..
  then show ?thesis
    by (intro exI [of _ df]) simp
qed

text \<open>
  Claim C6. For a non-empty date sequence, with components that are lists, hashable codes
  and a date column the library converts to \<open>ts\<close>: the record of index \<open>i\<close> has the
  \<open>i\<close>-th converted date; its \<open>tmax\<close>, \<open>tmin\<close> and \<open>precip_mm\<close> are the entry of
  index \<open>i\<close> of the component, as the frame stores it in the column the component gives,
  when the component has that index, and \<open>None\<close> otherwise; its \<open>weather_text\<close> is the
  translator's result on the code of index \<open>i\<close> when there is one and \<open>None\<close>
  otherwise. An entry that is not an int, such as the floats of the collaborator, is in
  the record as it is in the component. The records come in the order of the dates: there
  are as many records as dates and the column of their dates is \<open>ts\<close>.
\<close>

theorem record_follows_index:
  assumes "truthy daily_json"
    and "py_get daily_json ''time'' (PList []) = Inr (PList dates)"
    and "py_get daily_json ''temperature_2m_max'' (PList []) = Inr (PList tmaxs)"
    and "py_get daily_json ''temperature_2m_min'' (PList []) = Inr (PList tmins)"
    and "py_get daily_json ''precipitation_sum'' (PList []) = Inr (PList precips)"
    and "py_get daily_json ''weathercode'' (PList []) = Inr (PList wcodes)"
    and "list_all hashable (take (length dates) wcodes)"
    and "dates \<noteq> []"
    and "to_datetime dates = Inr ts"
    and "length ts = length dates"
  shows "\<exists>df. make_daily_dataframe int_cell to_datetime daily_json = Inr (Some df)
           \<and> length (records df) = length dates
           \<and> map date (records df) = ts
           \<and> (\<forall>i. i < length dates \<longrightarrow>
                 date (records df ! i) = ts ! i
               \<and> tmax (records df ! i)
                   = (if i < length tmaxs
                      then store_cell int_cell (padded tmaxs (length dates)) (tmaxs ! i)
                      else PNone)
               \<and> tmin (records df ! i)
                   = (if i < length tmins
                      then store_cell int_cell (padded tmins (length dates)) (tmins ! i)
                      else PNone)
               \<and> precip_mm (records df ! i)
                   = (if i < length precips
                      then store_cell int_cell (padded precips (length dates)) (precips ! i)
                      else PNone)
               \<and> (if i < length wcodes
                   then weathercode_to_text (wcodes ! i) = Inr (weather_text (records df ! i))
                   else weather_text (records df ! i) = PNone)
               \<and> (i < length tmaxs \<and> (\<forall>k. tmaxs ! i \<noteq> PInt k)
                    \<longrightarrow> tmax (records df ! i) = tmaxs ! i)
               \<and> (i < length tmins \<and> (\<forall>k. tmins ! i \<noteq> PInt k)
                    \<longrightarrow> tmin (records df ! i) = tmins ! i)
               \<and> (i < length precips \<and> (\<forall>k. precips ! i \<noteq> PInt k)
                    \<longrightarrow> precip_mm (records df ! i) = precips ! i))"
proof -
  note res = make_daily_dataframe_lists
    [where to_datetime = to_datetime and int_cell = int_cell, OF assms]
  have dates_eq: "map date (map (\<lambda>(j, t). row_at int_cell tmaxs tmins precips wcodes
                    (length dates) j t) (List.enumerate 0 ts)) = ts"
    by (rule map_date_rows)
  have wtext: "weathercode_to_text (wcodes ! i) = Inr (text_of (wcodes ! i))"
    if "i < length dates" and "i < length wcodes" for i
    using hashable_take_nth [OF assms(7) that] by (rule weathercode_to_text_hashable)
  have row: "map (\<lambda>(j, t). row_at int_cell tmaxs tmins precips wcodes (length dates) j t)
               (List.enumerate 0 ts) ! i
               = row_at int_cell tmaxs tmins precips wcodes (length dates) i (ts ! i)"
    if "i < length dates" for i
    using that assms(10) by (simp add: nth_enumerate_eq)
  have keep: "store_cell int_cell col v = v" if "\<forall>k. v \<noteq> PInt k" for col v
    using that by (cases v) (simp_all add: store_cell_def)
  show ?thesis
    unfolding res
    apply (intro exI conjI)
       apply (rule refl)
      apply (simp add: assms(10))
     apply (simp only: dataframe.simps dates_eq)
    apply (intro allI impI)
    apply (simp only: dataframe.simps row)
    apply (simp add: row_at_def wtext keep)
    done
qed

theorem record_follows_index_witness:
  "\<exists>df. make_daily_dataframe numeric_column Inr
          (PDict [(''time'', PList [PStr ''2024-03-01'', PStr ''2024-03-02'']),
                  (''temperature_2m_max'', PList [PInt 21, PFloat 19.5]),
                  (''temperature_2m_min'', PList [PFloat 11]),
                  (''precipitation_sum'', PList [PNone, PFloat 4]),
                  (''weathercode'', PList [PInt 3])]) = Inr (Some df)
        \<and> length (records df) = 2
        \<and> map date (records df) = [PStr ''2024-03-01'', PStr ''2024-03-02'']
        \<and> tmax (records df ! 0) = PFloat 21 \<and> tmax (records df ! 1) = PFloat 19.5
        \<and> tmin (records df ! 0) = PFloat 11 \<and> tmin (records df ! 1) = PNone
        \<and> precip_mm (records df ! 0) = PNone \<and> precip_mm (records df ! 1) = PFloat 4
        \<and> weather_text (records df ! 0) = PStr ''Overcast''
        \<and> weather_text (records df ! 1) = PNone"
proof -
  let ?dates = "[PStr ''2024-03-01'', PStr ''2024-03-02'']"
  let ?as = "[PInt 21, PFloat 19.5]"
  let ?bs = "[PFloat 11]"
  let ?cs = "[PNone, PFloat 4]"
  let ?ws = "[PInt 3]"
  let ?daily = "PDict [(''time'', PList ?dates),
                  (''temperature_2m_max'', PList ?as),
                  (''temperature_2m_min'', PList ?bs),
                  (''precipitation_sum'', PList ?cs),
                  (''weathercode'', PList ?ws)]"
  let ?P = "\<lambda>df. make_daily_dataframe numeric_column Inr ?daily = Inr (Some df)
           \<and> length (records df) = length ?dates
           \<and> map date (records df) = ?dates
           \<and> (\<forall>i. i < length ?dates \<longrightarrow>
                 date (records df ! i) = ?dates ! i
               \<and> tmax (records df ! i)
                   = (if i < length ?as
                      then store_cell numeric_column (padded ?as (length ?dates)) (?as ! i)
                      else PNone)
               \<and> tmin (records df ! i)
                   = (if i < length ?bs
                      then store_cell numeric_column (padded ?bs (length ?dates)) (?bs ! i)
                      else PNone)
               \<and> precip_mm (records df ! i)
                   = (if i < length ?cs
                      then store_cell numeric_column (padded ?cs (length ?dates)) (?cs ! i)
                      else PNone)
               \<and> (if i < length ?ws
                   then weathercode_to_text (?ws ! i) = Inr (weather_text (records df ! i))
                   else weather_text (records df ! i) = PNone)
               \<and> (i < length ?as \<and> (\<forall>k. ?as ! i \<noteq> PInt k)
                    \<longrightarrow> tmax (records df ! i) = ?as ! i)
               \<and> (i < length ?bs \<and> (\<forall>k. ?bs ! i \<noteq> PInt k)
                    \<longrightarrow> tmin (records df ! i) = ?bs ! i)
               \<and> (i < length ?cs \<and> (\<forall>k. ?cs ! i \<noteq> PInt k)
                    \<longrightarrow> precip_mm (records df ! i) = ?cs ! i))"
  have "\<exists>df. ?P df"
    by (rule record_follows_index
          [where daily_json = ?daily and dates = ?dates and tmaxs = ?as and tmins = ?bs
             and precips = ?cs and wcodes = ?ws and to_datetime = Inr and ts = ?dates
             and int_cell = numeric_column])
       (simp_all add: dict_get_def)
  then obtain df where df: "?P df" ..
  have code3: "weathercode_to_text (PInt 3) = Inr (PStr ''Overcast'')"
    by (simp add: weathercode_to_text_int mapping_def)
  have stored: "store_cell numeric_column (padded ?as (length ?dates)) (PInt 21) = PFloat 21"
    by (simp add: padded_def numeric_column_def)
  note rows = df [THEN conjunct2, THEN conjunct2, THEN conjunct2, rule_format]
  have r0: "tmax (records df ! 0) = PFloat 21" "tmin (records df ! 0) = PFloat 11"
      "precip_mm (records df ! 0) = PNone" "weather_text (records df ! 0) = PStr ''Overcast''"
    using rows [of 0] stored by (simp_all add: code3)
  have r1: "tmax (records df ! 1) = PFloat 19.5" "tmin (records df ! 1) = PNone"
      "precip_mm (records df ! 1) = PFloat 4" "weather_text (records df ! 1) = PNone"
    using rows [of 1] by simp_all
  have "length (records df) = 2" "map date (records df) = ?dates"
      "make_daily_dataframe numeric_column Inr ?daily = Inr (Some df)"
    using df by simp_all
  then show ?thesis
    using r0 r1 by (intro exI [of _ df]) simp
qed

text \<open>
  Claim C5. The payload of the round-trip scenario gives exactly two records,
  \<open>(d1, 10.0, 2.0, 0.0, Clear sky)\<close> and \<open>(d2, 12.0, 3.0, 5.0, Rain: Slight)\<close>, where
  \<open>d1\<close> and \<open>d2\<close> are what the library converts the two date strings to.
\<close>

theorem round_trip_scenario:
  assumes "to_datetime [PStr ''2024-01-01'', PStr ''2024-01-02''] = Inr [d1, d2]"
  shows "make_daily_dataframe int_cell to_datetime
           (PDict [(''time'', PList [PStr ''2024-01-01'', PStr ''2024-01-02'']),
                   (''temperature_2m_max'', PList [PFloat 10.0, PFloat 12.0]),
                   (''temperature_2m_min'', PList [PFloat 2.0, PFloat 3.0]),
                   (''precipitation_sum'', PList [PFloat 0.0, PFloat 5.0]),
                   (''weathercode'', PList [PInt 0, PInt 61])])
         = Inr (Some
             \<lparr>columns = [''date'', ''tmax'', ''tmin'', ''precip_mm'', ''weather_text''],
              records =
                [\<lparr>date = d1, tmax = PFloat 10.0, tmin = PFloat 2.0, precip_mm = PFloat 0.0,
                  weather_text = PStr ''Clear sky''\<rparr>,
                 \<lparr>date = d2, tmax = PFloat 12.0, tmin = PFloat 3.0, precip_mm = PFloat 5.0,
                  weather_text = PStr ''Rain: Slight''\<rparr>]\<rparr>)"
proof -
  have codes: "text_of (PInt 0) = PStr ''Clear sky''" "text_of (PInt 61) = PStr ''Rain: Slight''"
    by (simp_all add: text_of_def weathercode_to_text_int mapping_def)
  have "make_daily_dataframe int_cell to_datetime
           (PDict [(''time'', PList [PStr ''2024-01-01'', PStr ''2024-01-02'']),
                   (''temperature_2m_max'', PList [PFloat 10.0, PFloat 12.0]),
                   (''temperature_2m_min'', PList [PFloat 2.0, PFloat 3.0]),
                   (''precipitation_sum'', PList [PFloat 0.0, PFloat 5.0]),
                   (''weathercode'', PList [PInt 0, PInt 61])])
        = Inr (Some \<lparr>columns = row_columns,
                 records = map (\<lambda>(j, t). row_at int_cell [PFloat 10.0, PFloat 12.0]
                                  [PFloat 2.0, PFloat 3.0] [PFloat 0.0, PFloat 5.0]
                                  [PInt 0, PInt 61]
                                  (length [PStr ''2024-01-01'', PStr ''2024-01-02'']) j t)
                             (List.enumerate 0 [d1, d2])\<rparr>)"
    by (rule make_daily_dataframe_lists [where ds = "[PStr ''2024-01-01'', PStr ''2024-01-02'']"])
       (simp_all add: dict_get_def assms)
  then show ?thesis
    by (simp add: row_columns_def row_at_def codes)
qed

theorem round_trip_scenario_witness:
  "make_daily_dataframe numeric_column Inr
           (PDict [(''time'', PList [PStr ''2024-01-01'', PStr ''2024-01-02'']),
                   (''temperature_2m_max'', PList [PFloat 10.0, PFloat 12.0]),
                   (''temperature_2m_min'', PList [PFloat 2.0, PFloat 3.0]),
                   (''precipitation_sum'', PList [PFloat 0.0, PFloat 5.0]),
                   (''weathercode'', PList [PInt 0, PInt 61])])
         = Inr (Some
             \<lparr>columns = [''date'', ''tmax'', ''tmin'', ''precip_mm'', ''weather_text''],
              records =
                [\<lparr>date = PStr ''2024-01-01'', tmax = PFloat 10.0, tmin = PFloat 2.0,
                  precip_mm = PFloat 0.0, weather_text = PStr ''Clear sky''\<rparr>,
                 \<lparr>date = PStr ''2024-01-02'', tmax = PFloat 12.0, tmin = PFloat 3.0,
                  precip_mm = PFloat 5.0, weather_text = PStr ''Rain: Slight''\<rparr>]\<rparr>)"
  by (rule round_trip_scenario) (rule refl)

text \<open>
  Claim C3, on the code: a non-empty daily block whose \<^verbatim>\<open>time\<close> entry is an empty list or
  is missing makes \<^verbatim>\<open>rows\<close> empty, the frame built from it has no \<^verbatim>\<open>date\<close> column, and
  line 110 raises \<^verbatim>\<open>KeyError\<close> instead of returning an empty table.
\<close>

theorem empty_date_sequence_raises:
  "make_daily_dataframe int_cell to_datetime (PDict [(''time'', PList [])]) = Inl KeyError
   \<and> make_daily_dataframe int_cell to_datetime
         (PDict [(''time'', PList []), (''temperature_2m_max'', PList []),
                 (''temperature_2m_min'', PList []), (''precipitation_sum'', PList []),
                 (''weathercode'', PList [])]) = Inl KeyError
   \<and> make_daily_dataframe int_cell to_datetime
         (PDict [(''temperature_2m_max'', PList [PFloat 1.5])])
       = Inl KeyError"
  by (simp add: make_daily_dataframe_def py_bind_def dict_get_def DataFrame_def getitem_date_def)

text \<open>
  An absent or empty daily block is answered by \<^verbatim>\<open>None\<close> (lines 93 and 94).
\<close>

lemma absent_block_gives_None:
  "make_daily_dataframe int_cell to_datetime PNone = Inr None"
  "make_daily_dataframe int_cell to_datetime (PDict []) = Inr None"
  by (simp_all add: make_daily_dataframe_def)

text \<open>
  Claim C9, as the code has it. The date field of every record is the timestamp the
  library converts the date entry of the same index to, unchanged: the normalizer does
  no timezone arithmetic and no truncation of its own (lines 110 and 111), so the field
  has the calendar date, the time of day and the offset of the converted entry. It has no
  time of day exactly when the converted entry has none, as for the date-only strings of
  the collaborator; taking the calendar date is left to the caller (lines 169 and 188).
\<close>

theorem date_field_is_conversion:
  fixes to_datetime :: "pyval list \<Rightarrow> py_error + timestamp list"
  assumes "truthy daily_json"
    and "py_get daily_json ''time'' (PList []) = Inr (PList dates)"
    and "py_get daily_json ''temperature_2m_max'' (PList []) = Inr (PList tmaxs)"
    and "py_get daily_json ''temperature_2m_min'' (PList []) = Inr (PList tmins)"
    and "py_get daily_json ''precipitation_sum'' (PList []) = Inr (PList precips)"
    and "py_get daily_json ''weathercode'' (PList []) = Inr (PList wcodes)"
    and "list_all hashable (take (length dates) wcodes)"
    and "dates \<noteq> []"
    and "to_datetime dates = Inr ts"
    and "length ts = length dates"
  shows "\<exists>df. make_daily_dataframe int_cell to_datetime daily_json = Inr (Some df)
           \<and> map date (records df) = ts
           \<and> (\<forall>i. i < length dates \<longrightarrow>
                 year (date (records df ! i)) = year (ts ! i)
               \<and> month (date (records df ! i)) = month (ts ! i)
               \<and> day (date (records df ! i)) = day (ts ! i)
               \<and> time_of_day (date (records df ! i)) = time_of_day (ts ! i)
               \<and> utc_offset (date (records df ! i)) = utc_offset (ts ! i))"
proof -
  note res = make_daily_dataframe_lists
    [where to_datetime = to_datetime and int_cell = int_cell, OF assms]
  have dates_eq: "map date (map (\<lambda>(j, t). row_at int_cell tmaxs tmins precips wcodes
                    (length dates) j t) (List.enumerate 0 ts)) = ts"
    by (rule map_date_rows)
  have row: "date (map (\<lambda>(j, t). row_at int_cell tmaxs tmins precips wcodes (length dates) j t)
               (List.enumerate 0 ts) ! i) = ts ! i"
    if "i < length dates" for i
    using that assms(10) by (simp add: nth_enumerate_eq row_at_def)
  show ?thesis
    unfolding res
    apply (intro exI conjI)
      apply (rule refl)
     apply (simp only: dataframe.simps dates_eq)
    apply (intro allI impI)
    apply (simp only: dataframe.simps row)
    done
qed

text \<open>
  The conversion for concrete runs on the two columns used below.
\<close>

lemma iso_dates_example:
  "iso_to_datetime [PStr ''2024-01-01'', PStr ''2024-01-02'']
     = Inr [\<lparr>year = 2024, month = 1, day = 1, time_of_day = 0, utc_offset = None\<rparr>,
            \<lparr>year = 2024, month = 1, day = 2, time_of_day = 0, utc_offset = None\<rparr>]"
  by (simp add: iso_to_datetime_def iso_timestamp_def iso_date_def digit_def py_bind_def)

lemma iso_time_example:
  "iso_to_datetime [PStr ''2024-01-01T12:30+05:00'']
     = Inr [\<lparr>year = 2024, month = 1, day = 1, time_of_day = 750, utc_offset = Some 300\<rparr>]"
  by (simp add: iso_to_datetime_def iso_timestamp_def iso_date_def iso_minutes_def
        iso_offset_def digit_def py_bind_def)

theorem date_field_is_conversion_witness:
  "\<exists>df. make_daily_dataframe numeric_column iso_to_datetime
          (PDict [(''time'', PList [PStr ''2024-01-01'', PStr ''2024-01-02'']),
                  (''temperature_2m_max'', PList [PFloat 10.0, PFloat 12.0]),
                  (''temperature_2m_min'', PList [PFloat 2.0, PFloat 3.0]),
                  (''precipitation_sum'', PList [PFloat 0.0, PFloat 5.0]),
                  (''weathercode'', PList [PInt 0, PInt 61])]) = Inr (Some df)
        \<and> map date (records df)
            = [\<lparr>year = 2024, month = 1, day = 1, time_of_day = 0, utc_offset = None\<rparr>,
               \<lparr>year = 2024, month = 1, day = 2, time_of_day = 0, utc_offset = None\<rparr>]
        \<and> time_of_day (date (records df ! 0)) = 0
        \<and> utc_offset (date (records df ! 0)) = None
        \<and> time_of_day (date (records df ! 1)) = 0
        \<and> utc_offset (date (records df ! 1)) = None"
proof -
  let ?dates = "[PStr ''2024-01-01'', PStr ''2024-01-02'']"
  let ?ts = "[\<lparr>year = 2024, month = 1, day = 1, time_of_day = 0, utc_offset = None\<rparr>,
              \<lparr>year = 2024, month = 1, day = 2, time_of_day = 0, utc_offset = None\<rparr>]"
  let ?daily = "PDict [(''time'', PList ?dates),
                  (''temperature_2m_max'', PList [PFloat 10.0, PFloat 12.0]),
                  (''temperature_2m_min'', PList [PFloat 2.0, PFloat 3.0]),
                  (''precipitation_sum'', PList [PFloat 0.0, PFloat 5.0]),
                  (''weathercode'', PList [PInt 0, PInt 61])]"
  let ?P = "\<lambda>df. make_daily_dataframe numeric_column iso_to_datetime ?daily = Inr (Some df)
           \<and> map date (records df) = ?ts
           \<and> (\<forall>i. i < length ?dates \<longrightarrow>
                 year (date (records df ! i)) = year (?ts ! i)
               \<and> month (date (records df ! i)) = month (?ts ! i)
               \<and> day (date (records df ! i)) = day (?ts ! i)
               \<and> time_of_day (date (records df ! i)) = time_of_day (?ts ! i)
               \<and> utc_offset (date (records df ! i)) = utc_offset (?ts ! i))"
  have "\<exists>df. ?P df"
    by (rule date_field_is_conversion
          [where daily_json = ?daily and dates = ?dates
             and tmaxs = "[PFloat 10.0, PFloat 12.0]" and tmins = "[PFloat 2.0, PFloat 3.0]"
             and precips = "[PFloat 0.0, PFloat 5.0]" and wcodes = "[PInt 0, PInt 61]"
             and to_datetime = iso_to_datetime and ts = ?ts and int_cell = numeric_column])
       (simp_all add: dict_get_def iso_dates_example)
  then obtain df where df: "?P df" ..
  note rows = df [THEN conjunct2, THEN conjunct2, rule_format]
  show ?thesis
    using df rows [of 0] rows [of 1] by (intro exI [of _ df]) simp
qed

text \<open>
  Claim C9 as stated fails on a date entry with a time of day: the entry
  \<^verbatim>\<open>2024-01-01T12:30+05:00\<close> is converted to a timestamp of 12:30 at UTC+05:00, and that
  timestamp is the date field of the record.
\<close>

theorem date_field_counterexample:
  "make_daily_dataframe numeric_column iso_to_datetime
     (PDict [(''time'', PList [PStr ''2024-01-01T12:30+05:00'']),
             (''temperature_2m_max'', PList [PFloat 10.0]),
             (''temperature_2m_min'', PList [PFloat 2.0]),
             (''precipitation_sum'', PList [PFloat 0.0]),
             (''weathercode'', PList [PInt 0])])
   = Inr (Some
       \<lparr>columns = [''date'', ''tmax'', ''tmin'', ''precip_mm'', ''weather_text''],
        records =
          [\<lparr>date = \<lparr>year = 2024, month = 1, day = 1, time_of_day = 750,
                    utc_offset = Some 300\<rparr>,
            tmax = PFloat 10.0, tmin = PFloat 2.0, precip_mm = PFloat 0.0,
            weather_text = PStr ''Clear sky''\<rparr>]\<rparr>)"
proof -
  have code: "text_of (PInt 0) = PStr ''Clear sky''"
    by (simp add: text_of_def weathercode_to_text_int mapping_def)
  have "make_daily_dataframe numeric_column iso_to_datetime
     (PDict [(''time'', PList [PStr ''2024-01-01T12:30+05:00'']),
             (''temperature_2m_max'', PList [PFloat 10.0]),
             (''temperature_2m_min'', PList [PFloat 2.0]),
             (''precipitation_sum'', PList [PFloat 0.0]),
             (''weathercode'', PList [PInt 0])])
        = Inr (Some \<lparr>columns = row_columns,
                 records = map (\<lambda>(j, t). row_at numeric_column [PFloat 10.0] [PFloat 2.0]
                                  [PFloat 0.0] [PInt 0]
                                  (length [PStr ''2024-01-01T12:30+05:00'']) j t)
                             (List.enumerate 0
                                [\<lparr>year = 2024, month = 1, day = 1, time_of_day = 750,
                                  utc_offset = Some 300\<rparr>])\<rparr>)"
    by (rule make_daily_dataframe_lists
          [where ds = "[PStr ''2024-01-01T12:30+05:00'']"])
       (simp_all add: dict_get_def iso_time_example)
  then show ?thesis
    by (simp add: row_columns_def row_at_def code)
qed

section \<open>Properties of the resolver and the fetcher\<close>

text \<open>
  Both functions issue one request and then only look at its outcome.
\<close>

lemma fetch_weather_reply:
  "fetch_weather lat lon days w =
     (except_RequestException
        (py_bind (reply w (length (sent w)) (weather_request lat lon days)) (\<lambda>resp.
         py_bind (raise_for_status resp) (\<lambda>u. json resp))),
      w\<lparr>sent := sent w @ [weather_request lat lon days]\<rparr>)"
  by (simp add: fetch_weather_def requests_get_def)

lemma geocode_location_reply:
  "geocode_location float_of query w =
     (except_RequestException
        (py_bind (reply w (length (sent w)) (geocode_request query)) (\<lambda>resp.
         py_bind (raise_for_status resp) (\<lambda>u.
         py_bind (json resp) (first_candidate float_of query)))),
      w\<lparr>sent := sent w @ [geocode_request query]\<rparr>)"
  by (simp add: geocode_location_def requests_get_def)

text \<open>
  Claim C8, as the code has it. The fetcher issues exactly one request, whatever comes
  back. When the response has a status that is not 4xx or 5xx and a body that is valid
  JSON, the decoded body is returned unmodified. When the request raises a
  \<^verbatim>\<open>RequestException\<close> (a timeout, a failed connection), when the status is 4xx or 5xx, or
  when the body is not valid JSON, the fetcher returns \<^verbatim>\<open>None\<close> and raises nothing.
\<close>

theorem fetch_weather_outcomes:
  "(reply w (length (sent w)) (weather_request lat lon days) = Inr resp
      \<and> \<not> (400 \<le> status_code resp \<and> status_code resp < 600)
      \<and> body resp = Some payload
      \<longrightarrow> fst (fetch_weather lat lon days w) = Inr payload)
   \<and> (reply w (length (sent w)) (weather_request lat lon days) = Inl e
      \<and> is_RequestException e
      \<longrightarrow> fst (fetch_weather lat lon days w) = Inr PNone)
   \<and> (reply w (length (sent w)) (weather_request lat lon days) = Inr resp
      \<and> 400 \<le> status_code resp \<and> status_code resp < 600
      \<longrightarrow> fst (fetch_weather lat lon days w) = Inr PNone)
   \<and> (reply w (length (sent w)) (weather_request lat lon days) = Inr resp
      \<and> body resp = None
      \<longrightarrow> fst (fetch_weather lat lon days w) = Inr PNone)
   \<and> sent (snd (fetch_weather lat lon days w)) = sent w @ [weather_request lat lon days]"
  by (simp add: fetch_weather_reply except_RequestException_def py_bind_def
        raise_for_status_def json_def)

theorem fetch_weather_outcomes_witness:
  "fst (fetch_weather 24.86 67.0 7
          (replying (Inr \<lparr>status_code = 200,
                          body = Some (PDict [(''current_weather'', PDict []),
                                              (''daily'', PDict [])])\<rparr>)))
     = Inr (PDict [(''current_weather'', PDict []), (''daily'', PDict [])])
   \<and> fst (fetch_weather 24.86 67.0 7 (replying (Inl Timeout))) = Inr PNone
   \<and> fst (fetch_weather 24.86 67.0 7
            (replying (Inr \<lparr>status_code = 503, body = Some (PDict [])\<rparr>))) = Inr PNone
   \<and> fst (fetch_weather 24.86 67.0 7 (replying (Inr \<lparr>status_code = 200, body = None\<rparr>)))
       = Inr PNone
   \<and> sent (snd (fetch_weather 24.86 67.0 7 (replying (Inl Timeout))))
       = [weather_request 24.86 67.0 7]"
  using
    fetch_weather_outcomes
      [where w = "replying (Inr \<lparr>status_code = 200,
                          body = Some (PDict [(''current_weather'', PDict []),
                                              (''daily'', PDict [])])\<rparr>)"
         and lat = "24.86" and lon = "67.0" and days = 7
         and resp = "\<lparr>status_code = 200,
                          body = Some (PDict [(''current_weather'', PDict []),
                                              (''daily'', PDict [])])\<rparr>"
         and payload = "PDict [(''current_weather'', PDict []), (''daily'', PDict [])]"]
    fetch_weather_outcomes
      [where w = "replying (Inl Timeout)" and lat = "24.86" and lon = "67.0" and days = 7
         and e = Timeout]
    fetch_weather_outcomes
      [where w = "replying (Inr \<lparr>status_code = 503, body = Some (PDict [])\<rparr>)"
         and lat = "24.86" and lon = "67.0" and days = 7
         and resp = "\<lparr>status_code = 503, body = Some (PDict [])\<rparr>"]
    fetch_weather_outcomes
      [where w = "replying (Inr \<lparr>status_code = 200, body = None\<rparr>)"
         and lat = "24.86" and lon = "67.0" and days = 7
         and resp = "\<lparr>status_code = 200, body = None\<rparr>"]
  by (simp add: replying_def)

text \<open>
  Claim C8 as stated fails on a status that is neither 2xx nor 4xx nor 5xx:
  \<^verbatim>\<open>raise_for_status\<close> lets a response with status 300 pass, and its JSON body is returned
  as the payload, not the absence signal.
\<close>

theorem fetch_weather_counterexample:
  "fst (fetch_weather 24.86 67.0 7
          (replying (Inr \<lparr>status_code = 300,
                          body = Some (PDict [(''daily'', PDict [])])\<rparr>)))
     = Inr (PDict [(''daily'', PDict [])])
   \<and> fst (fetch_weather 24.86 67.0 7
          (replying (Inr \<lparr>status_code = 300,
                          body = Some (PDict [(''daily'', PDict [])])\<rparr>)))
     \<noteq> Inr PNone"
  by (simp add: fetch_weather_reply replying_def except_RequestException_def py_bind_def
        raise_for_status_def json_def)

text \<open>
  Claim C4, as the code has it. For every query the resolver returns \<^verbatim>\<open>None\<close> and raises
  nothing when the collaborator returns an empty result list, when the request raises a
  \<^verbatim>\<open>RequestException\<close> (a timeout, a failed connection), when the response status is 4xx
  or 5xx, and when the response body is not valid JSON.
\<close>

theorem geocode_location_absence:
  "(reply w (length (sent w)) (geocode_request query) = Inr resp
      \<and> \<not> (400 \<le> status_code resp \<and> status_code resp < 600)
      \<and> body resp = Some (PList [])
      \<longrightarrow> fst (geocode_location float_of query w) = Inr PNone)
   \<and> (reply w (length (sent w)) (geocode_request query) = Inl e
      \<and> is_RequestException e
      \<longrightarrow> fst (geocode_location float_of query w) = Inr PNone)
   \<and> (reply w (length (sent w)) (geocode_request query) = Inr resp
      \<and> 400 \<le> status_code resp \<and> status_code resp < 600
      \<longrightarrow> fst (geocode_location float_of query w) = Inr PNone)
   \<and> (reply w (length (sent w)) (geocode_request query) = Inr resp
      \<and> body resp = None
      \<longrightarrow> fst (geocode_location float_of query w) = Inr PNone)"
  by (simp add: geocode_location_reply except_RequestException_def py_bind_def
        raise_for_status_def json_def first_candidate_def)

theorem geocode_location_absence_witness:
  "fst (geocode_location no_float ''Atlantis''
          (replying (Inr \<lparr>status_code = 200, body = Some (PList [])\<rparr>))) = Inr PNone
   \<and> fst (geocode_location no_float ''Atlantis'' (replying (Inl Timeout))) = Inr PNone
   \<and> fst (geocode_location no_float ''Atlantis'' (replying (Inl ConnectionError))) = Inr PNone
   \<and> fst (geocode_location no_float ''Atlantis''
            (replying (Inr \<lparr>status_code = 404, body = Some (PList [])\<rparr>))) = Inr PNone
   \<and> fst (geocode_location no_float ''Atlantis''
            (replying (Inr \<lparr>status_code = 200, body = None\<rparr>))) = Inr PNone"
  using
    geocode_location_absence
      [where w = "replying (Inr \<lparr>status_code = 200, body = Some (PList [])\<rparr>)"
         and query = "''Atlantis''" and float_of = no_float
         and resp = "\<lparr>status_code = 200, body = Some (PList [])\<rparr>"]
    geocode_location_absence
      [where w = "replying (Inl Timeout)" and query = "''Atlantis''" and float_of = no_float
         and e = Timeout]
    geocode_location_absence
      [where w = "replying (Inl ConnectionError)" and query = "''Atlantis''"
         and float_of = no_float and e = ConnectionError]
    geocode_location_absence
      [where w = "replying (Inr \<lparr>status_code = 404, body = Some (PList [])\<rparr>)"
         and query = "''Atlantis''" and float_of = no_float
         and resp = "\<lparr>status_code = 404, body = Some (PList [])\<rparr>"]
    geocode_location_absence
      [where w = "replying (Inr \<lparr>status_code = 200, body = None\<rparr>)"
         and query = "''Atlantis''" and float_of = no_float
         and resp = "\<lparr>status_code = 200, body = None\<rparr>"]
  by (simp add: replying_def)

text \<open>
  Claim C4 as stated fails twice. A body that is a list whose first candidate has no
  \<^verbatim>\<open>lat\<close> makes \<^verbatim>\<open>float(None)\<close> raise \<^verbatim>\<open>TypeError\<close>, which is no \<^verbatim>\<open>RequestException\<close> and
  leaves the function. A response with status 300 and a usable candidate is resolved to
  a location, not to the absence signal.
\<close>

theorem geocode_location_counterexample:
  "fst (geocode_location no_float ''Lahore''
          (replying (Inr \<lparr>status_code = 200,
                          body = Some (PList [PDict [(''display_name'', PStr ''Lahore'')]])\<rparr>)))
     = Inl TypeError
   \<and> fst (geocode_location no_float ''Lahore''
          (replying (Inr \<lparr>status_code = 300,
                          body = Some (PList [PDict [(''lat'', PFloat 31.5),
                                                     (''lon'', PFloat 74.3)]])\<rparr>)))
     = Inr (PDict [(''lat'', PFloat 31.5), (''lon'', PFloat 74.3), (''name'', PStr ''Lahore'')])"
  by (simp add: geocode_location_reply replying_def except_RequestException_def py_bind_def
        raise_for_status_def json_def first_candidate_def dict_get_def)

text \<open>
  Claim C10. When the response is accepted (status not 4xx or 5xx), its body is a
  non-empty list whose first candidate is a dict, and \<^verbatim>\<open>float\<close> converts the candidate's
  \<^verbatim>\<open>lat\<close> and \<^verbatim>\<open>lon\<close>, the location returned has as its name the candidate's
  \<^verbatim>\<open>display_name\<close> unchanged when the candidate has that field, and the query string
  when it has not.
\<close>

theorem display_name_fallback:
  assumes "reply w (length (sent w)) (geocode_request query) = Inr resp"
    and "\<not> (400 \<le> status_code resp \<and> status_code resp < 600)"
    and "body resp = Some (PList (PDict item # rest))"
    and "py_float float_of (dict_get item ''lat'' PNone) = Inr lat"
    and "py_float float_of (dict_get item ''lon'' PNone) = Inr lon"
  shows "fst (geocode_location float_of query w) =
           Inr (PDict [(''lat'', PFloat lat), (''lon'', PFloat lon),
                       (''name'', (case map_of item ''display_name'' of
                                     None \<Rightarrow> PStr query
                                   | Some display_name \<Rightarrow> display_name))])"
  using assms
  by (simp add: geocode_location_reply except_RequestException_def py_bind_def
        raise_for_status_def json_def first_candidate_def dict_get_def)

theorem display_name_fallback_witness:
  "fst (geocode_location no_float ''Lahore''
          (replying (Inr \<lparr>status_code = 200,
                          body = Some (PList [PDict [(''lat'', PFloat 31.5),
                                                     (''lon'', PFloat 74.3)]])\<rparr>)))
     = Inr (PDict [(''lat'', PFloat 31.5), (''lon'', PFloat 74.3), (''name'', PStr ''Lahore'')])
   \<and> fst (geocode_location no_float ''Lahore''
          (replying (Inr \<lparr>status_code = 200,
                          body = Some (PList [PDict [(''lat'', PFloat 31.5),
                                                     (''lon'', PFloat 74.3),
                                                     (''display_name'',
                                                      PStr ''Lahore, Punjab, Pakistan'')]])\<rparr>)))
     = Inr (PDict [(''lat'', PFloat 31.5), (''lon'', PFloat 74.3),
                   (''name'', PStr ''Lahore, Punjab, Pakistan'')])"
  using
    display_name_fallback
      [where w = "replying (Inr \<lparr>status_code = 200,
                          body = Some (PList [PDict [(''lat'', PFloat 31.5),
                                                     (''lon'', PFloat 74.3)]])\<rparr>)"
         and query = "''Lahore''" and float_of = no_float
         and resp = "\<lparr>status_code = 200,
                          body = Some (PList [PDict [(''lat'', PFloat 31.5),
                                                     (''lon'', PFloat 74.3)]])\<rparr>"
         and item = "[(''lat'', PFloat 31.5), (''lon'', PFloat 74.3)]" and rest = "[]"
         and lat = "31.5" and lon = "74.3"]
    display_name_fallback
      [where w = "replying (Inr \<lparr>status_code = 200,
                          body = Some (PList [PDict [(''lat'', PFloat 31.5),
                                                     (''lon'', PFloat 74.3),
                                                     (''display_name'',
                                                      PStr ''Lahore, Punjab, Pakistan'')]])\<rparr>)"
         and query = "''Lahore''" and float_of = no_float
         and resp = "\<lparr>status_code = 200,
                          body = Some (PList [PDict [(''lat'', PFloat 31.5),
                                                     (''lon'', PFloat 74.3),
                                                     (''display_name'',
                                                      PStr ''Lahore, Punjab, Pakistan'')]])\<rparr>"
         and item = "[(''lat'', PFloat 31.5), (''lon'', PFloat 74.3),
                      (''display_name'', PStr ''Lahore, Punjab, Pakistan'')]" and rest = "[]"
         and lat = "31.5" and lon = "74.3"]
  by (simp add: replying_def dict_get_def)


section \<open>Properties of the script\<close>

lemma forecast_table_daily:
  assumes "reply w (length (sent w)) (weather_request lat lon days) = Inr resp"
    and "\<not> (400 \<le> status_code resp \<and> status_code resp < 600)"
    and "body resp = Some (PDict payload)"
    and "payload \<noteq> []"
    and "dict_get payload ''current_weather'' (PDict []) = PDict current"
  shows "fst (forecast_table int_cell to_datetime lat lon days w)
           = make_daily_dataframe int_cell to_datetime (dict_get payload ''daily'' (PDict []))"
proof -
  have fetched: "fst (fetch_weather lat lon days w) = Inr (PDict payload)"
    using assms(1-3)
    by (simp add: fetch_weather_reply except_RequestException_def py_bind_def
          raise_for_status_def json_def)
  have current: "show_current (PDict payload) = Inr ()"
    using assms(5) by (simp add: show_current_def py_bind_def)
  show ?thesis
    using fetched current assms(4)
    by (simp add: forecast_table_def case_prod_beta py_bind_def)
qed

text \<open>
  Claim C7, as the code has it. The day count only travels in the request. When the
  collaborator answers the request for \<open>days\<close> days with a payload whose daily block is
  well formed and has a non-empty date sequence, the table has exactly as many records as
  that sequence has dates, whatever \<open>days\<close> is; nothing is raised and nothing is padded.
  Asking for 5 days and getting 3 gives a table of 3 records.
\<close>

theorem table_length_is_series_length:
  assumes "reply w (length (sent w)) (weather_request lat lon days) = Inr resp"
    and "\<not> (400 \<le> status_code resp \<and> status_code resp < 600)"
    and "body resp = Some (PDict payload)"
    and "dict_get payload ''current_weather'' (PDict []) = PDict current"
    and "dict_get payload ''daily'' (PDict []) = daily"
    and "truthy daily"
    and "py_get daily ''time'' (PList []) = Inr (PList dates)"
    and "py_get daily ''temperature_2m_max'' (PList []) = Inr (PList tmaxs)"
    and "py_get daily ''temperature_2m_min'' (PList []) = Inr (PList tmins)"
    and "py_get daily ''precipitation_sum'' (PList []) = Inr (PList precips)"
    and "py_get daily ''weathercode'' (PList []) = Inr (PList wcodes)"
    and "list_all hashable (take (length dates) wcodes)"
    and "dates \<noteq> []"
    and "to_datetime dates = Inr ts"
    and "length ts = length dates"
  shows "\<exists>df. fst (forecast_table int_cell to_datetime lat lon days w) = Inr (Some df)
           \<and> length (records df) = length dates"
proof -
  have payload_ne: "payload \<noteq> []"
    using assms(5,6) by (auto simp: dict_get_def)
  note daily = forecast_table_daily
    [where to_datetime = to_datetime and int_cell = int_cell,
     OF assms(1-3) payload_ne assms(4)]
  note table = make_daily_dataframe_lists
    [where to_datetime = to_datetime and int_cell = int_cell, OF assms(6-15)]
  show ?thesis
    unfolding daily assms(5) table using assms(15) by simp
qed

theorem table_length_is_series_length_witness:
  "\<exists>df. fst (forecast_table numeric_column Inr 24.86 67.0 5
            (replying (Inr \<lparr>status_code = 200,
               body = Some (PDict
                 [(''current_weather'', PDict [(''temperature'', PFloat 30.5)]),
                  (''daily'', PDict
                    [(''time'', PList [PStr ''2024-06-01'', PStr ''2024-06-02'',
                                      PStr ''2024-06-03'']),
                     (''temperature_2m_max'', PList [PFloat 35, PFloat 36, PFloat 34]),
                     (''temperature_2m_min'', PList [PFloat 27, PFloat 28, PFloat 27]),
                     (''precipitation_sum'', PList [PFloat 0, PFloat 0, PFloat 1]),
                     (''weathercode'', PList [PInt 0, PInt 1, PInt 61])])])\<rparr>)))
          = Inr (Some df)
        \<and> length (records df) = 3"
proof -
  let ?dates = "[PStr ''2024-06-01'', PStr ''2024-06-02'', PStr ''2024-06-03'']"
  let ?daily = "[(''time'', PList ?dates),
                 (''temperature_2m_max'', PList [PFloat 35, PFloat 36, PFloat 34]),
                 (''temperature_2m_min'', PList [PFloat 27, PFloat 28, PFloat 27]),
                 (''precipitation_sum'', PList [PFloat 0, PFloat 0, PFloat 1]),
                 (''weathercode'', PList [PInt 0, PInt 1, PInt 61])]"
  let ?payload = "[(''current_weather'', PDict [(''temperature'', PFloat 30.5)]),
                  (''daily'', PDict ?daily)]"
  let ?resp = "\<lparr>status_code = 200, body = Some (PDict ?payload)\<rparr>"
  let ?P = "\<lambda>df. fst (forecast_table numeric_column Inr 24.86 67.0 5 (replying (Inr ?resp)))
                  = Inr (Some df)
           \<and> length (records df) = length ?dates"
  have "\<exists>df. ?P df"
    by (rule table_length_is_series_length
          [where w = "replying (Inr ?resp)" and resp = ?resp and payload = ?payload
             and current = "[(''temperature'', PFloat 30.5)]" and daily = "PDict ?daily"
             and dates = ?dates and tmaxs = "[PFloat 35, PFloat 36, PFloat 34]"
             and tmins = "[PFloat 27, PFloat 28, PFloat 27]"
             and precips = "[PFloat 0, PFloat 0, PFloat 1]"
             and wcodes = "[PInt 0, PInt 1, PInt 61]" and to_datetime = Inr and ts = ?dates
             and lat = "24.86" and lon = "67.0" and days = 5 and int_cell = numeric_column])
       (simp_all add: replying_def dict_get_def)
  then obtain df where df: "?P df" ..
  then show ?thesis
    by (intro exI [of _ df]) simp
qed

text \<open>
  Claim C7 as stated fails twice. The table is not bounded by the day count: 7 days
  returned for 5 requested give a table of 7 records, neither 5 nor fewer. And a shorter
  series can raise: the series of length 0 runs into the \<^verbatim>\<open>KeyError\<close> of line 110.
\<close>

theorem table_length_counterexample:
  "map_sum id (map_option (length \<circ> records))
     (fst (forecast_table numeric_column Inr 24.86 67.0 5
        (replying (Inr \<lparr>status_code = 200,
           body = Some (PDict
             [(''daily'', PDict
                [(''time'', PList [PStr ''2024-06-01'', PStr ''2024-06-02'',
                                  PStr ''2024-06-03'', PStr ''2024-06-04'',
                                  PStr ''2024-06-05'', PStr ''2024-06-06'',
                                  PStr ''2024-06-07'']),
                 (''temperature_2m_max'',
                  PList [PFloat 35, PFloat 36, PFloat 34, PFloat 33, PFloat 35, PFloat 36,
                         PFloat 37])])])\<rparr>))))
     = Inr (Some 7)
   \<and> fst (forecast_table numeric_column Inr 24.86 67.0 5
        (replying (Inr \<lparr>status_code = 200,
           body = Some (PDict [(''daily'', PDict [(''time'', PList [])])])\<rparr>)))
     = Inl KeyError"
proof -
  let ?dates = "[PStr ''2024-06-01'', PStr ''2024-06-02'', PStr ''2024-06-03'',
                 PStr ''2024-06-04'', PStr ''2024-06-05'', PStr ''2024-06-06'',
                 PStr ''2024-06-07'']"
  let ?as = "[PFloat 35, PFloat 36, PFloat 34, PFloat 33, PFloat 35, PFloat 36, PFloat 37]"
  let ?daily = "PDict [(''time'', PList ?dates), (''temperature_2m_max'', PList ?as)]"
  let ?resp = "\<lparr>status_code = 200, body = Some (PDict [(''daily'', ?daily)])\<rparr>"
  let ?empty = "\<lparr>status_code = 200,
                 body = Some (PDict [(''daily'', PDict [(''time'', PList [])])])\<rparr>"
  have table: "make_daily_dataframe numeric_column Inr ?daily =
      Inr (Some \<lparr>columns = row_columns,
                 records = map (\<lambda>(j, t). row_at numeric_column ?as [] [] [] (length ?dates) j t)
                             (List.enumerate 0 ?dates)\<rparr>)"
    by (rule make_daily_dataframe_lists [where ds = ?dates]) (simp_all add: dict_get_def)
  have long: "fst (forecast_table numeric_column Inr 24.86 67.0 5 (replying (Inr ?resp)))
                = make_daily_dataframe numeric_column Inr ?daily"
    using forecast_table_daily
      [where w = "replying (Inr ?resp)" and resp = ?resp and payload = "[(''daily'', ?daily)]"
         and current = "[]" and lat = "24.86" and lon = "67.0" and days = 5
         and int_cell = numeric_column and to_datetime = Inr]
    by (simp add: replying_def dict_get_def)
  have none: "fst (forecast_table numeric_column Inr 24.86 67.0 5 (replying (Inr ?empty)))
                = make_daily_dataframe numeric_column (Inr :: pyval list \<Rightarrow> py_error + pyval list)
                    (PDict [(''time'', PList [])])"
    using forecast_table_daily
      [where w = "replying (Inr ?empty)" and resp = ?empty
         and payload = "[(''daily'', PDict [(''time'', PList [])])]"
         and current = "[]" and lat = "24.86" and lon = "67.0" and days = 5
         and int_cell = numeric_column
         and to_datetime = "Inr :: pyval list \<Rightarrow> py_error + pyval list"]
    by (simp add: replying_def dict_get_def)
  have raised: "make_daily_dataframe numeric_column (Inr :: pyval list \<Rightarrow> py_error + pyval list)
                  (PDict [(''time'', PList [])]) = Inl KeyError"
    by (simp add: make_daily_dataframe_def py_bind_def dict_get_def DataFrame_def
          getitem_date_def)
  show ?thesis
    unfolding long table none raised by simp
qed

end
